theory Spec2Isabelle
  imports Main
begin

section \<open>Python strings and built-ins used by \<^verbatim>\<open>lib/abc.py\<close>\<close>

text \<open>
  Text is modelled as \<^typ>\<open>string\<close>, one \<^typ>\<open>char\<close> per character of the Python
  string (the notation is ASCII; characters above 255 are outside the model). Every
  \<^verbatim>\<open>raise\<close> of the source, and every exception a built-in raises on the paths the
  source takes, is a value of \<open>error\<close>; a function that can raise returns
  \<open>error + 'a\<close>.
\<close>

datatype error =
    ValueError string
  | IndexError
  | AttributeError

definition ascii_uppercase :: string where
  "ascii_uppercase = ''ABCDEFGHIJKLMNOPQRSTUVWXYZ''"

definition ascii_lowercase :: string where
  "ascii_lowercase = ''abcdefghijklmnopqrstuvwxyz''"

definition digits :: string where
  "digits = ''0123456789''"

definition is_letter :: "char \<Rightarrow> bool" where
  \<comment> \<open>the regular-expression class \<^verbatim>\<open>[a-zA-Z]\<close>\<close>
  "is_letter c \<longleftrightarrow> c \<in> set (ascii_lowercase @ ascii_uppercase)"

definition is_digit :: "char \<Rightarrow> bool" where
  \<comment> \<open>the regular-expression class \<^verbatim>\<open>[0-9]\<close>\<close>
  "is_digit c \<longleftrightarrow> c \<in> set digits"

definition whitespace :: string where
  \<comment> \<open>the characters below 256 for which \<^verbatim>\<open>str.isspace\<close> holds: what \<^verbatim>\<open>strip()\<close>
     removes and what \<^verbatim>\<open>\s\<close> matches\<close>
  "whitespace = [CHR 0x09, CHR 0x0A, CHR 0x0B, CHR 0x0C, CHR 0x0D, CHR 0x1C, CHR 0x1D,
                 CHR 0x1E, CHR 0x1F, CHR 0x20, CHR 0x85, CHR 0xA0]"

definition is_space :: "char \<Rightarrow> bool" where
  "is_space c \<longleftrightarrow> c \<in> set whitespace"

definition lower_char :: "char \<Rightarrow> char" where
  "lower_char c =
     (case map_of (zip ascii_uppercase ascii_lowercase) c of Some l \<Rightarrow> l | None \<Rightarrow> c)"

definition upper_char :: "char \<Rightarrow> char" where
  "upper_char c =
     (case map_of (zip ascii_lowercase ascii_uppercase) c of Some u \<Rightarrow> u | None \<Rightarrow> c)"

definition lower :: "string \<Rightarrow> string" where
  \<comment> \<open>\<^verbatim>\<open>str.lower\<close>; the strings it is compared with here are ASCII letters\<close>
  "lower s = map lower_char s"

definition upper :: "string \<Rightarrow> string" where
  "upper s = map upper_char s"

definition strip :: "string \<Rightarrow> string" where
  \<comment> \<open>\<^verbatim>\<open>str.strip()\<close>\<close>
  "strip s = rev (dropWhile is_space (rev (dropWhile is_space s)))"

fun split_sp :: "string \<Rightarrow> string \<Rightarrow> string list" where
  \<comment> \<open>\<^verbatim>\<open>s.split(" ")\<close>, with the piece read so far as first argument\<close>
  "split_sp cur [] = [cur]"
| "split_sp cur (c # cs) =
     (if c = CHR '' '' then cur # split_sp [] cs else split_sp (cur @ [c]) cs)"

definition split :: "string \<Rightarrow> string list" where
  "split s = split_sp [] s"

fun index :: "'a list \<Rightarrow> 'a \<Rightarrow> nat option" where
  \<comment> \<open>\<^verbatim>\<open>list.index\<close>; \<open>None\<close> is its ValueError\<close>
  "index [] x = None"
| "index (y # ys) x = (if y = x then Some 0 else map_option Suc (index ys x))"

definition digit_value :: "char \<Rightarrow> int" where
  "digit_value c = (case index digits c of Some i \<Rightarrow> int i | None \<Rightarrow> 0)"

definition py_int :: "string \<Rightarrow> error + int" where
  \<comment> \<open>\<^verbatim>\<open>int(s)\<close> on a string of decimal digits, the only strings the tokenizer's
     duration group can hold; anything else is reported as int's ValueError\<close>
  "py_int s =
     (if s \<noteq> [] \<and> list_all is_digit s
      then Inr (foldl (\<lambda>a c. 10 * a + digit_value c) 0 s)
      else Inl (ValueError ''invalid literal for int()''))"


section \<open>Accidental, MusicObject, Rest and Note\<close>

text \<open>
  An \<^verbatim>\<open>Accidental\<close> object has the attribute \<^verbatim>\<open>_value\<close> (the string it was built
  from) and, only when that string is one of the three marks, the attribute
  \<^verbatim>\<open>value\<close>. \<open>acc_value = None\<close> is the attribute that was never assigned: reading it
  raises AttributeError.
\<close>

datatype Accidental = Accidental (acc_raw: string) (acc_value: "int option")

definition Accidental_init :: "string \<Rightarrow> Accidental" where
  "Accidental_init v =
     Accidental v
       (if v = ''_'' then Some (- 1)
        else if v = ''^'' then Some 1
        else if v = ''='' then Some 0
        else None)"

text \<open>
  A \<^verbatim>\<open>Rest\<close> has the name \<^verbatim>\<open>"Rest"\<close> and a duration; a \<^verbatim>\<open>Note\<close> has a name, a
  duration, an optional accidental and the derived \<^verbatim>\<open>value\<close>.
\<close>

datatype MusicObject =
    Rest (duration: int)
  | Note (note_name: string) (duration: int) (accidental: "Accidental option")
      (note_value: int)

fun name :: "MusicObject \<Rightarrow> string" where
  "name (Rest d) = ''Rest''"
| "name (Note n d a v) = n"

fun set_duration :: "int \<Rightarrow> MusicObject \<Rightarrow> MusicObject" where
  "set_duration d' (Rest d) = Rest d'"
| "set_duration d' (Note n d a v) = Note n d' a v"

definition MusicObject_init :: "string \<Rightarrow> error + int" where
  \<comment> \<open>the duration \<^verbatim>\<open>MusicObject.__init__\<close> stores\<close>
  "MusicObject_init dur = (if dur = [] then Inr 1 else py_int dur)"

definition Rest_init :: "string \<Rightarrow> error + MusicObject" where
  "Rest_init dur = (case MusicObject_init dur of Inl e \<Rightarrow> Inl e | Inr d \<Rightarrow> Inr (Rest d))"

definition base_notes :: "string list" where
  "base_notes = [''C'', ''D'', ''E'', ''F'', ''G'', ''A'', ''B'',
                 ''c'', ''d'', ''e'', ''f'', ''g'', ''a'', ''b'']"

definition base_values :: "int list" where
  "base_values = [40, 42, 44, 45, 47, 49, 51, 52, 54, 56, 57, 59, 61, 63]"

fun staff_position :: "string \<Rightarrow> int \<Rightarrow> int" where
  \<comment> \<open>the loop over \<^verbatim>\<open>self.name[1:]\<close>\<close>
  "staff_position [] v = v"
| "staff_position (c # cs) v =
     staff_position cs
       (if c = CHR '','' then v - 12 else if c = CHR 0x27 then v + 12 else v)"

definition update_value :: "string \<Rightarrow> Accidental option \<Rightarrow> error + int" where
  \<comment> \<open>\<^verbatim>\<open>Note._update_value\<close>: the value it assigns, from the name and the accidental\<close>
  "update_value nm acc =
     (case nm of
        [] \<Rightarrow> Inl IndexError
      | n # rest \<Rightarrow>
          (case index base_notes [n] of
             None \<Rightarrow> Inl (ValueError ''is not in list'')
           | Some i \<Rightarrow>
               (let v = staff_position rest (base_values ! i)
                in case acc of
                     None \<Rightarrow> Inr v
                   | Some a \<Rightarrow>
                       (case acc_value a of
                          None \<Rightarrow> Inl AttributeError
                        | Some d \<Rightarrow> Inr (v + d)))))"

definition Note_init :: "string \<Rightarrow> Accidental option \<Rightarrow> string \<Rightarrow> error + MusicObject" where
  "Note_init nm acc dur =
     (case MusicObject_init dur of
        Inl e \<Rightarrow> Inl e
      | Inr d \<Rightarrow>
          (case update_value nm acc of
             Inl e \<Rightarrow> Inl e
           | Inr v \<Rightarrow> Inr (Note nm d acc v)))"

fun set_accidental :: "Accidental \<Rightarrow> MusicObject \<Rightarrow> error + MusicObject" where
  "set_accidental a (Note n d old v) =
     (case update_value n (Some a) of
        Inl e \<Rightarrow> Inl e
      | Inr v' \<Rightarrow> Inr (Note n d (Some a) v'))"
| "set_accidental a (Rest d) = Inl AttributeError"

fun Note_eq :: "MusicObject \<Rightarrow> MusicObject \<Rightarrow> error + bool" where
  \<comment> \<open>\<^verbatim>\<open>Note.__eq__\<close>; an operand with no \<^verbatim>\<open>value\<close> attribute raises\<close>
  "Note_eq (Note n d a v) (Note n' d' a' v') = Inr (v = v')"
| "Note_eq _ _ = Inl AttributeError"

fun Note_lt :: "MusicObject \<Rightarrow> MusicObject \<Rightarrow> error + bool" where
  \<comment> \<open>\<^verbatim>\<open>Note.__lt__\<close>\<close>
  "Note_lt (Note n d a v) (Note n' d' a' v') = Inr (v < v')"
| "Note_lt _ _ = Inl AttributeError"


section \<open>Information fields and the document\<close>

text \<open>
  \<^verbatim>\<open>ParseAbcFile\<close> builds each field with \<^verbatim>\<open>information_field.groups(2)\<close> as its
  value: the tuple of both groups of the match. A value is therefore either a string or
  a tuple of strings, and \<^verbatim>\<open>signature[1]\<close> is defined on both.
\<close>

datatype py_value = Str string | Tuple "string list"

datatype InformationField = InformationField (field_name: string) (field_value: py_value)

fun subscript1 :: "py_value \<Rightarrow> error + string" where
  \<comment> \<open>\<^verbatim>\<open>x[1]\<close>\<close>
  "subscript1 (Str s) = (if 1 < length s then Inr [s ! 1] else Inl IndexError)"
| "subscript1 (Tuple xs) = (if 1 < length xs then Inr (xs ! 1) else Inl IndexError)"

datatype AbcFile = AbcFile (fields: "InformationField list") (abc_music: "MusicObject list")

fun apply_accidental :: "string \<Rightarrow> string \<Rightarrow> MusicObject list \<Rightarrow> error + MusicObject list" where
  \<comment> \<open>the loop \<^verbatim>\<open>for n in self.music\<close> for one accidental token\<close>
  "apply_accidental mark note [] = Inr []"
| "apply_accidental mark note (n # ns) =
     (case (if lower (name n) = note
            then (case n of
                    Rest d \<Rightarrow> Inl AttributeError
                  | Note nm d a v \<Rightarrow>
                      if a = None then set_accidental (Accidental_init mark) n else Inr n)
            else Inr n) of
        Inl e \<Rightarrow> Inl e
      | Inr n' \<Rightarrow>
          (case apply_accidental mark note ns of
             Inl e \<Rightarrow> Inl e
           | Inr ns' \<Rightarrow> Inr (n' # ns')))"

fun propagate_accidentals :: "string list \<Rightarrow> MusicObject list \<Rightarrow> error + MusicObject list" where
  \<comment> \<open>the loop \<^verbatim>\<open>for a in accidentals[1:]\<close>\<close>
  "propagate_accidentals [] ms = Inr ms"
| "propagate_accidentals (a # as) ms =
     (if length a \<noteq> 2 then propagate_accidentals as ms
      else (case apply_accidental [a ! 0] (lower [a ! 1]) ms of
              Inl e \<Rightarrow> Inl e
            | Inr ms' \<Rightarrow> propagate_accidentals as ms'))"

definition propagate_key_signature ::
  "InformationField list \<Rightarrow> MusicObject list \<Rightarrow> error + MusicObject list" where
  "propagate_key_signature fs ms =
     (case [field_value f. f \<leftarrow> fs, field_name f = ''K''] of
        [] \<Rightarrow> Inl IndexError
      | v # _ \<Rightarrow>
          (case subscript1 v of
             Inl e \<Rightarrow> Inl e
           | Inr signature \<Rightarrow>
               if length signature = 0 \<or> signature ! 0 \<noteq> CHR ''C''
               then Inl (ValueError
                      ''Key signature must be present and must be C with accidentals'')
               else propagate_accidentals (drop 1 (split signature)) ms))"

definition AbcFile_init :: "InformationField list \<Rightarrow> MusicObject list \<Rightarrow> error + AbcFile" where
  "AbcFile_init fs ms =
     (case propagate_key_signature fs ms of
        Inl e \<Rightarrow> Inl e
      | Inr ms' \<Rightarrow> Inr (AbcFile fs ms'))"


section \<open>Cleaning the body text\<close>

definition kept :: "char \<Rightarrow> bool" where
  \<comment> \<open>the complement of the class \<^verbatim>\<open>strip_decorators\<close> deletes\<close>
  "kept c \<longleftrightarrow>
     is_letter c \<or> is_digit c \<or> is_space c \<or>
     c \<in> set (''/-^_,'' @ [CHR 0x27] @ ''=[]'')"

fun squeeze_spaces :: "string \<Rightarrow> string" where
  \<comment> \<open>\<^verbatim>\<open>re.sub(" +", " ", content)\<close>\<close>
  "squeeze_spaces (a # b # cs) =
     (if a = CHR '' '' \<and> b = CHR '' '' then squeeze_spaces (b # cs)
      else a # squeeze_spaces (b # cs))"
| "squeeze_spaces cs = cs"

fun join_ties :: "string \<Rightarrow> string" where
  \<comment> \<open>\<^verbatim>\<open>content.replace("- ", "-")\<close>\<close>
  "join_ties (a # b # cs) =
     (if a = CHR ''-'' \<and> b = CHR '' '' then a # join_ties cs else a # join_ties (b # cs))"
| "join_ties cs = cs"

definition strip_decorators :: "string \<Rightarrow> string" where
  "strip_decorators content = join_ties (squeeze_spaces (filter kept content))"


section \<open>The event tokenizer\<close>

text \<open>
  One match of the verbose pattern
  \<^verbatim>\<open>\[? [\^=_]*? [a-zA-Z][,']? [0-9]? \]? -?\<close> with its six named groups. The groups
  are searched in this order at a start position: an optional \<^verbatim>\<open>[\<close>; accidental marks;
  one letter; an optional octave mark; an optional digit; an optional \<^verbatim>\<open>]\<close>; an
  optional \<^verbatim>\<open>-\<close>. The accidental group is lazy, but the letter that must follow it is
  not an accidental mark, so the only way to match is to take the whole run of marks;
  the optional groups are greedy and what follows them can match the empty string, so
  each takes its character whenever it is there. A start position matches iff the run
  of marks (after the optional bracket) is followed by a letter.
\<close>

record Match =
  chord_start :: string
  accidentals :: string
  name_group :: string
  duration_group :: string
  chord_end :: string
  tie :: string

definition is_mark :: "char \<Rightarrow> bool" where
  \<comment> \<open>the class \<^verbatim>\<open>[\^=_]\<close>\<close>
  "is_mark c \<longleftrightarrow> c \<in> set ''^=_''"

definition is_octave :: "char \<Rightarrow> bool" where
  \<comment> \<open>the class \<^verbatim>\<open>[,']\<close>\<close>
  "is_octave c \<longleftrightarrow> c = CHR '','' \<or> c = CHR 0x27"

fun optional :: "(char \<Rightarrow> bool) \<Rightarrow> string \<Rightarrow> string \<times> string" where
  \<comment> \<open>a greedy \<^verbatim>\<open>X?\<close>: the text matched and the text left\<close>
  "optional p [] = ([], [])"
| "optional p (c # cs) = (if p c then ([c], cs) else ([], c # cs))"

definition match_at :: "string \<Rightarrow> (Match \<times> string) option" where
  \<comment> \<open>the match starting at the head of the text, with the text after it\<close>
  "match_at s =
     (case optional (\<lambda>c. c = CHR ''['') s of (cs, s1) \<Rightarrow>
        (case dropWhile is_mark s1 of
           [] \<Rightarrow> None
         | l # s2 \<Rightarrow>
             if \<not> is_letter l then None
             else
               (case optional is_octave s2 of (oct, s3) \<Rightarrow>
                (case optional is_digit s3 of (dur, s4) \<Rightarrow>
                 (case optional (\<lambda>c. c = CHR '']'') s4 of (ce, s5) \<Rightarrow>
                  (case optional (\<lambda>c. c = CHR ''-'') s5 of (t, s6) \<Rightarrow>
                     Some (\<lparr>chord_start = cs, accidentals = takeWhile is_mark s1,
                             name_group = l # oct, duration_group = dur,
                             chord_end = ce, tie = t\<rparr>, s6)))))))"

lemma optional_length: "optional p s = (m, r) \<Longrightarrow> length r \<le> length s"
  by (cases s) (auto split: if_splits)

lemma match_at_shorter:
  assumes "match_at s = Some (m, r)"
  shows "length r < length s"
proof -
  obtain cs s1 where a: "optional (\<lambda>c. c = CHR ''['') s = (cs, s1)"
    by (cases "optional (\<lambda>c. c = CHR ''['') s")
  from assms a obtain l s2 where b: "dropWhile is_mark s1 = l # s2"
    by (auto simp: match_at_def split: list.splits)
  obtain oct s3 where c: "optional is_octave s2 = (oct, s3)"
    by (cases "optional is_octave s2")
  obtain dur s4 where d: "optional is_digit s3 = (dur, s4)"
    by (cases "optional is_digit s3")
  obtain ce s5 where e: "optional (\<lambda>c. c = CHR '']'') s4 = (ce, s5)"
    by (cases "optional (\<lambda>c. c = CHR '']'') s4")
  obtain t s6 where f: "optional (\<lambda>c. c = CHR ''-'') s5 = (t, s6)"
    by (cases "optional (\<lambda>c. c = CHR ''-'') s5")
  from assms a b c d e f have r: "r = s6"
    by (auto simp: match_at_def split: if_splits)
  have "length (dropWhile is_mark s1) \<le> length s1"
    by (rule length_dropWhile_le)
  with b have "length s2 < length s1" by simp
  moreover have "length s1 \<le> length s" using a by (rule optional_length)
  moreover have "length s3 \<le> length s2" using c by (rule optional_length)
  moreover have "length s4 \<le> length s3" using d by (rule optional_length)
  moreover have "length s5 \<le> length s4" using e by (rule optional_length)
  moreover have "length s6 \<le> length s5" using f by (rule optional_length)
  ultimately show ?thesis using r by simp
qed

function finditer :: "string \<Rightarrow> Match list" where
  \<comment> \<open>\<^verbatim>\<open>re.finditer\<close>: the matches from left to right; a position with no match is skipped\<close>
  "finditer [] = []"
| "finditer (c # cs) =
     (case match_at (c # cs) of
        Some (m, r) \<Rightarrow> m # finditer r
      | None \<Rightarrow> finditer cs)"
  by pat_completeness auto
termination
  by (relation "measure length") (auto dest: match_at_shorter)


section \<open>The loop of \<^verbatim>\<open>ParseAbcFile\<close> over the matches\<close>

record scan =
  music :: "MusicObject list"
  detect_tie :: bool
  detect_chord :: bool

definition make_event :: "Match \<Rightarrow> error + MusicObject" where
  \<comment> \<open>the object appended for a match\<close>
  "make_event m =
     (let acc = (if length (accidentals m) > 0
                 then Some (Accidental_init (accidentals m)) else None)
      in if lower (name_group m) \<in> set [''z'', ''x'']
         then Rest_init (duration_group m)
         else Note_init (name_group m) acc (duration_group m))"

definition fold_tie :: "scan \<Rightarrow> error + scan" where
  \<comment> \<open>the block \<^verbatim>\<open>if detect_tie: ...\<close>\<close>
  "fold_tie st =
     (if detect_tie st
      then (case rev (music st) of
              e2 # e1 # r \<Rightarrow>
                if name e1 = name e2
                then Inr (st\<lparr>music := rev r @ [set_duration (duration e1 + duration e2) e1],
                             detect_tie := False\<rparr>)
                else Inr (st\<lparr>detect_tie := False\<rparr>)
            | _ \<Rightarrow> Inl IndexError)
      else Inr st)"

definition fold_chord :: "Match \<Rightarrow> scan \<Rightarrow> error + scan" where
  \<comment> \<open>the block \<^verbatim>\<open>if detect_chord: ... else: ...\<close>\<close>
  "fold_chord m st =
     (if detect_chord st
      then (case rev (music st) of
              [] \<Rightarrow> Inl IndexError
            | e # r \<Rightarrow>
                Inr (st\<lparr>music := rev r @ [set_duration 0 e],
                         detect_chord := (chord_end m = [])\<rparr>))
      else Inr (st\<lparr>detect_chord := (chord_start m \<noteq> [])\<rparr>))"

definition loop_body :: "scan \<Rightarrow> Match \<Rightarrow> error + scan" where
  "loop_body st m =
     (case make_event m of
        Inl e \<Rightarrow> Inl e
      | Inr ev \<Rightarrow>
          (case fold_tie (st\<lparr>music := music st @ [ev]\<rparr>) of
             Inl e \<Rightarrow> Inl e
           | Inr st1 \<Rightarrow> fold_chord m (st1\<lparr>detect_tie := (tie m \<noteq> [])\<rparr>)))"

fun loop :: "scan \<Rightarrow> Match list \<Rightarrow> error + scan" where
  "loop st [] = Inr st"
| "loop st (m # ms) =
     (case loop_body st m of
        Inl e \<Rightarrow> Inl e
      | Inr st' \<Rightarrow> loop st' ms)"

definition parse_music :: "string \<Rightarrow> error + MusicObject list" where
  \<comment> \<open>the events of a cleaned body text: the loop from its initial state\<close>
  "parse_music music_content =
     (case loop \<lparr>music = [], detect_tie = False, detect_chord = False\<rparr>
                (finditer music_content) of
        Inl e \<Rightarrow> Inl e
      | Inr st \<Rightarrow> Inr (music st))"


section \<open>The header and \<^verbatim>\<open>ParseAbcFile\<close>\<close>

definition InformationFieldMatcher :: "string \<Rightarrow> (string \<times> string) option" where
  \<comment> \<open>\<^verbatim>\<open>re.compile("([A-Za-z]):(.*)").match\<close>: groups 1 and 2; \<^verbatim>\<open>.\<close> stops at a newline\<close>
  "InformationFieldMatcher line =
     (case line of
        c # d # rest \<Rightarrow>
          if is_letter c \<and> d = CHR '':''
          then Some ([c], takeWhile (\<lambda>x. x \<noteq> CHR 0x0A) rest)
          else None
      | _ \<Rightarrow> None)"

fun read_header :: "string list \<Rightarrow> InformationField list \<times> nat" where
  \<comment> \<open>the loop over \<^verbatim>\<open>contents[1:]\<close>: the fields and the number of lines it passed\<close>
  "read_header [] = ([], 0)"
| "read_header (l # ls) =
     (let line = strip l
      in if length line \<noteq> 0
         then (case InformationFieldMatcher line of
                 Some (g1, g2) \<Rightarrow>
                   (case read_header ls of
                      (fs, k) \<Rightarrow> (InformationField (upper g1) (Tuple [g1, g2]) # fs, Suc k))
               | None \<Rightarrow> ([], 0))
         else (case read_header ls of (fs, k) \<Rightarrow> (fs, Suc k)))"

definition validate_header :: "InformationField list \<Rightarrow> error + unit" where
  \<comment> \<open>the three checks under \<^verbatim>\<open># Validate header contents\<close>\<close>
  "validate_header fs =
     (if length fs < 3
      then Inl (ValueError ''Tune header must contain at least X:, T:, and K:'')
      else if field_name (fs ! 0) \<noteq> ''X'' \<or> field_name (fs ! 1) \<noteq> ''T''
      then Inl (ValueError ''Tune header must begin with X: followed by T:'')
      else if field_name (last fs) \<noteq> ''K''
      then Inl (ValueError ''Tune header must end with K:'')
      else Inr ())"

definition music_content :: "string list \<Rightarrow> nat \<Rightarrow> string" where
  \<comment> \<open>the cleaned body text: the lines from \<^verbatim>\<open>index\<close> on, stripped and joined\<close>
  "music_content contents i = strip_decorators (concat (map strip (drop i contents)))"

definition ParseAbcFile :: "string list \<Rightarrow> error + AbcFile" where
  \<comment> \<open>from the lines \<^verbatim>\<open>f.readlines()\<close> returned\<close>
  "ParseAbcFile contents =
     (if length contents = 0 then Inl (ValueError ''File is empty'')
      else if strip (contents ! 0) \<noteq> ''%abc''
      then Inl (ValueError
             ''File does not appear to be an abc notation file (missing header)'')
      else
        (case read_header (drop 1 contents) of (fs, k) \<Rightarrow>
           (case validate_header fs of
              Inl e \<Rightarrow> Inl e
            | Inr u \<Rightarrow>
                (case parse_music (music_content contents (1 + k)) of
                   Inl e \<Rightarrow> Inl e
                 | Inr ms \<Rightarrow> AbcFile_init fs ms))))"


section \<open>The pitch value as the specification words it\<close>

text \<open>
  The table of fourteen letters, the delta of each accidental mark, and the value they give
  a name: the base of the first letter, 12 down for each comma and 12 up for each
  apostrophe after it, plus the delta. \<open>None\<close> where the letter is not in the table or
  the mark is none of the three.
\<close>

definition spec_table :: "(char \<times> int) list" where
  "spec_table = zip ''CDEFGABcdefgab'' [40, 42, 44, 45, 47, 49, 51, 52, 54, 56, 57, 59, 61, 63]"

definition spec_delta :: "string option \<Rightarrow> int option" where
  "spec_delta mk =
     (case mk of
        None \<Rightarrow> Some 0
      | Some s \<Rightarrow>
          if s = ''_'' then Some (- 1) else if s = ''='' then Some 0
          else if s = ''^'' then Some 1 else None)"

definition spec_pitch :: "string \<Rightarrow> string option \<Rightarrow> int option" where
  "spec_pitch nm mk =
     (case nm of
        [] \<Rightarrow> None
      | c # marks \<Rightarrow>
          (case (map_of spec_table c, spec_delta mk) of
             (Some b, Some d) \<Rightarrow>
               Some (b - 12 * int (count_list marks (CHR '','')) 
                       + 12 * int (count_list marks (CHR 0x27)) + d)
           | _ \<Rightarrow> None))"


section \<open>Matches read from a text\<close>




section \<open>Unfolding the model on concrete inputs\<close>

lemmas tokenizer_defs =
  match_at_def is_mark_def is_letter_def is_digit_def is_octave_def
  ascii_lowercase_def ascii_uppercase_def digits_def

lemmas event_defs =
  make_event_def Note_init_def Rest_init_def MusicObject_init_def update_value_def
  base_notes_def base_values_def lower_def lower_char_def Accidental_init_def py_int_def
  digit_value_def is_digit_def digits_def ascii_lowercase_def ascii_uppercase_def

lemmas loop_defs = parse_music_def loop_body_def fold_tie_def fold_chord_def

lemmas file_defs =
  ParseAbcFile_def strip_def is_space_def whitespace_def InformationFieldMatcher_def
  upper_def upper_char_def validate_header_def music_content_def strip_decorators_def
  kept_def AbcFile_init_def propagate_key_signature_def split_def


section \<open>Pitch values\<close>

lemma staff_position_count:
  "staff_position marks v =
     v - 12 * int (count_list marks (CHR '','')) + 12 * int (count_list marks (CHR 0x27))"
  by (induction marks arbitrary: v) auto

lemma base_lookup:
  "(case index base_notes [c] of None \<Rightarrow> None | Some i \<Rightarrow> Some (base_values ! i)) =
     map_of spec_table c"
  by (simp add: base_notes_def base_values_def spec_table_def)

lemma acc_value_init: "acc_value (Accidental_init s) = spec_delta (Some s)"
  by (simp add: Accidental_init_def spec_delta_def)

lemma update_value_spec:
  "update_value nm (map_option Accidental_init mk) = Inr v \<longleftrightarrow> spec_pitch nm mk = Some v"
proof (cases nm)
  case Nil
  then show ?thesis by (simp add: update_value_def spec_pitch_def)
next
  case (Cons c marks)
  show ?thesis
  proof (cases "index base_notes [c]")
    case None
    with base_lookup [of c] have "map_of spec_table c = None" by simp
    with None Cons show ?thesis by (simp add: update_value_def spec_pitch_def)
  next
    case (Some i)
    with base_lookup [of c] have b: "map_of spec_table c = Some (base_values ! i)" by simp
    show ?thesis
    proof (cases mk)
      case None
      with Some Cons b show ?thesis
        by (simp add: update_value_def spec_pitch_def spec_delta_def staff_position_count)
    next
      case (Some s)
      with \<open>index base_notes [c] = Some i\<close> Cons b show ?thesis
        by (cases "spec_delta (Some s)")
           (simp_all add: update_value_def spec_pitch_def acc_value_init staff_position_count)
    qed
  qed
qed

lemma update_value_total:
  "spec_pitch nm mk = Some w \<Longrightarrow> update_value nm (map_option Accidental_init mk) = Inr w"
  by (simp add: update_value_spec)

text \<open>
  Claim C4. The value \<^verbatim>\<open>_update_value\<close> computes for a name and an accidental built from
  a mark is exactly the specified one: the table value of the first letter, minus 12 for
  each comma and plus 12 for each apostrophe in the rest of the name, plus the delta of
  the mark (0 with no accidental); it raises exactly where the specified value does not
  exist. The constructor stores this value, and \<^verbatim>\<open>set_accidental\<close> stores the value of
  the name with the new accidental, whatever value and accidental the Note had before.
\<close>

theorem pitch_value_formula:
  "(update_value nm (map_option Accidental_init mk) = Inr v \<longleftrightarrow> spec_pitch nm mk = Some v) \<and>
   (Note_init nm (map_option Accidental_init mk) dur = Inr x \<longleftrightarrow>
      (\<exists>d w. MusicObject_init dur = Inr d \<and> spec_pitch nm mk = Some w \<and>
             x = Note nm d (map_option Accidental_init mk) w)) \<and>
   (set_accidental (Accidental_init s) (Note nm' d' old v0) = Inr y \<longleftrightarrow>
      (\<exists>w. spec_pitch nm' (Some s) = Some w \<and> y = Note nm' d' (Some (Accidental_init s)) w))"
proof (intro conjI)
  show "update_value nm (map_option Accidental_init mk) = Inr v \<longleftrightarrow> spec_pitch nm mk = Some v"
    by (rule update_value_spec)
  show "Note_init nm (map_option Accidental_init mk) dur = Inr x \<longleftrightarrow>
      (\<exists>d w. MusicObject_init dur = Inr d \<and> spec_pitch nm mk = Some w \<and>
             x = Note nm d (map_option Accidental_init mk) w)"
    by (auto simp: Note_init_def update_value_spec split: sum.splits
             dest: update_value_total)
  show "set_accidental (Accidental_init s) (Note nm' d' old v0) = Inr y \<longleftrightarrow>
      (\<exists>w. spec_pitch nm' (Some s) = Some w \<and> y = Note nm' d' (Some (Accidental_init s)) w)"
  proof (cases "update_value nm' (Some (Accidental_init s))")
    case (Inl e)
    have "spec_pitch nm' (Some s) = None"
    proof (cases "spec_pitch nm' (Some s)")
      case (Some w)
      from update_value_total [OF this] Inl show ?thesis by simp
    qed simp
    with Inl show ?thesis by simp
  next
    case (Inr w)
    moreover from Inr have "spec_pitch nm' (Some s) = Some w"
      using update_value_spec [of nm' "Some s" w] by simp
    ultimately show ?thesis by auto
  qed
qed

theorem pitch_value_formula_witness:
  "update_value (''c'' @ [CHR 0x27, CHR 0x27]) (Some (Accidental_init ''_'')) = Inr 75 \<and>
   Note_init ''B,'' None ''3'' = Inr (Note ''B,'' 3 None 39) \<and>
   set_accidental (Accidental_init ''^'') (Note ''F,'' 3 None 33)
     = Inr (Note ''F,'' 3 (Some (Accidental_init ''^'')) 34)"
  using pitch_value_formula [where nm = "''c'' @ [CHR 0x27, CHR 0x27]" and mk = "Some ''_''"
      and v = 75]
    pitch_value_formula [where nm = "''B,''" and mk = None and dur = "''3''"
      and x = "Note ''B,'' 3 None 39"]
    pitch_value_formula [where s = "''^''" and nm' = "''F,''" and d' = 3 and old = None
      and ?v0.0 = 33 and y = "Note ''F,'' 3 (Some (Accidental_init ''^'')) 34"]
  by (simp add: spec_pitch_def spec_table_def spec_delta_def MusicObject_init_def py_int_def
        is_digit_def digits_def digit_value_def)


section \<open>Comparing Notes\<close>

lemma Note_init_spec:
  assumes "Note_init n (map_option Accidental_init mk) dur = Inr x"
  shows "\<exists>d v. spec_pitch n mk = Some v \<and> x = Note n d (map_option Accidental_init mk) v"
proof -
  from assms obtain d v where "update_value n (map_option Accidental_init mk) = Inr v"
    and "x = Note n d (map_option Accidental_init mk) v"
    by (auto simp: Note_init_def split: sum.splits)
  then show ?thesis by (auto simp: update_value_spec)
qed

text \<open>
  Claim C9. Two Notes are equal iff their values are equal, and the first is less than
  the second iff its value is smaller; names, durations and accidentals play no part. For
  two Notes as the constructor builds them, the comparison is the comparison of their
  specified pitch values. The witness is E sharp against F: different names and
  accidentals, equal values.
\<close>

theorem note_order_by_value:
  "Note_eq (Note n d a v) (Note n' d' a' v') = Inr (v = v') \<and>
   Note_lt (Note n d a v) (Note n' d' a' v') = Inr (v < v') \<and>
   (Note_init nm (map_option Accidental_init mk) dur = Inr x \<and>
    Note_init nm' (map_option Accidental_init mk') dur' = Inr y \<longrightarrow>
      (\<exists>p q. spec_pitch nm mk = Some p \<and> spec_pitch nm' mk' = Some q \<and>
             Note_eq x y = Inr (p = q) \<and> Note_lt x y = Inr (p < q)))"
proof (intro conjI impI)
  assume a: "Note_init nm (map_option Accidental_init mk) dur = Inr x \<and>
    Note_init nm' (map_option Accidental_init mk') dur' = Inr y"
  from a Note_init_spec [of nm mk dur x] obtain dx p where
    x: "spec_pitch nm mk = Some p" "x = Note nm dx (map_option Accidental_init mk) p"
    by blast
  from a Note_init_spec [of nm' mk' dur' y] obtain dy q where
    y: "spec_pitch nm' mk' = Some q" "y = Note nm' dy (map_option Accidental_init mk') q"
    by blast
  from x y show "\<exists>p q. spec_pitch nm mk = Some p \<and> spec_pitch nm' mk' = Some q \<and>
             Note_eq x y = Inr (p = q) \<and> Note_lt x y = Inr (p < q)"
    by simp
qed simp_all

theorem note_order_by_value_witness:
  "Note_init ''E'' (Some (Accidental_init ''^'')) [] =
     Inr (Note ''E'' 1 (Some (Accidental_init ''^'')) 45) \<and>
   Note_init ''F'' None ''2'' = Inr (Note ''F'' 2 None 45) \<and>
   Note_eq (Note ''E'' 1 (Some (Accidental_init ''^'')) 45) (Note ''F'' 2 None 45) = Inr True \<and>
   Note_lt (Note ''E'' 1 (Some (Accidental_init ''^'')) 45) (Note ''F'' 2 None 45) = Inr False"
proof -
  let ?e = "Note ''E'' 1 (Some (Accidental_init ''^'')) 45"
  let ?f = "Note ''F'' 2 None 45"
  have e: "Note_init ''E'' (map_option Accidental_init (Some ''^'')) [] = Inr ?e"
    by (simp add: event_defs)
  have f: "Note_init ''F'' (map_option Accidental_init None) ''2'' = Inr ?f"
    by (simp add: event_defs)
  have pe: "spec_pitch ''E'' (Some ''^'') = Some 45"
    by (simp add: spec_pitch_def spec_table_def spec_delta_def)
  have pf: "spec_pitch ''F'' None = Some 45"
    by (simp add: spec_pitch_def spec_table_def spec_delta_def)
  from note_order_by_value [where nm = "''E''" and mk = "Some ''^''" and dur = "[]" and x = ?e
      and nm' = "''F''" and mk' = None and dur' = "''2''" and y = ?f] e f pe pf
  have "Note_eq ?e ?f = Inr True \<and> Note_lt ?e ?f = Inr False" by auto
  with e f show ?thesis by simp
qed


section \<open>Tie folding\<close>






section \<open>Chord folding\<close>









section \<open>Durations\<close>









lemma duration_set_duration [simp]: "duration (set_duration d e) = d"
  by (cases e) simp_all























section \<open>The header\<close>

text \<open>
  Claim C8. Fewer than three fields, a first field other than X or a second other than T,
  and a last field other than K each raise a ValueError whose message names the rule; with
  all four conditions met the validation passes, in particular for the fields X, T, K. A
  failed validation is the result of \<^verbatim>\<open>ParseAbcFile\<close>; after a passed one
  \<^verbatim>\<open>ParseAbcFile\<close> goes on to the body and the document.
\<close>

theorem header_validation:
  "(length fs < 3 \<longrightarrow>
      validate_header fs =
        Inl (ValueError ''Tune header must contain at least X:, T:, and K:'')) \<and>
   (3 \<le> length fs \<and> (field_name (fs ! 0) \<noteq> ''X'' \<or> field_name (fs ! 1) \<noteq> ''T'') \<longrightarrow>
      validate_header fs =
        Inl (ValueError ''Tune header must begin with X: followed by T:'')) \<and>
   (3 \<le> length fs \<and> field_name (fs ! 0) = ''X'' \<and> field_name (fs ! 1) = ''T'' \<and>
    field_name (last fs) \<noteq> ''K'' \<longrightarrow>
      validate_header fs = Inl (ValueError ''Tune header must end with K:'')) \<and>
   (3 \<le> length fs \<and> field_name (fs ! 0) = ''X'' \<and> field_name (fs ! 1) = ''T'' \<and>
    field_name (last fs) = ''K'' \<longrightarrow>
      validate_header fs = Inr ()) \<and>
   (map field_name fs = [''X'', ''T'', ''K''] \<longrightarrow> validate_header fs = Inr ()) \<and>
   (contents \<noteq> [] \<and> strip (contents ! 0) = ''%abc'' \<and>
    validate_header (fst (read_header (drop 1 contents))) = Inl e \<longrightarrow>
      ParseAbcFile contents = Inl e) \<and>
   (contents \<noteq> [] \<and> strip (contents ! 0) = ''%abc'' \<and>
    validate_header (fst (read_header (drop 1 contents))) = Inr () \<longrightarrow>
      ParseAbcFile contents =
        (case parse_music
                (music_content contents (1 + snd (read_header (drop 1 contents)))) of
           Inl e' \<Rightarrow> Inl e'
         | Inr ms \<Rightarrow> AbcFile_init (fst (read_header (drop 1 contents))) ms))"
proof (intro conjI impI)
  assume "map field_name fs = [''X'', ''T'', ''K'']"
  then obtain a b c where "fs = [a, b, c]" and "field_name a = ''X''"
    and "field_name b = ''T''" and "field_name c = ''K''"
    by auto
  then show "validate_header fs = Inr ()" by (simp add: validate_header_def)
next
  assume "contents \<noteq> [] \<and> strip (contents ! 0) = ''%abc'' \<and>
    validate_header (fst (read_header (drop 1 contents))) = Inl e"
  then show "ParseAbcFile contents = Inl e"
    by (cases "read_header (drop 1 contents)") (simp add: ParseAbcFile_def)
next
  assume "contents \<noteq> [] \<and> strip (contents ! 0) = ''%abc'' \<and>
    validate_header (fst (read_header (drop 1 contents))) = Inr ()"
  then show "ParseAbcFile contents =
        (case parse_music
                (music_content contents (1 + snd (read_header (drop 1 contents)))) of
           Inl e' \<Rightarrow> Inl e'
         | Inr ms \<Rightarrow> AbcFile_init (fst (read_header (drop 1 contents))) ms)"
    by (cases "read_header (drop 1 contents)")
       (simp add: ParseAbcFile_def cong: sum.case_cong)
qed (simp_all add: validate_header_def)

theorem header_validation_witness:
  "validate_header [InformationField ''X'' (Tuple [''X'', ''1'']),
                    InformationField ''T'' (Tuple [''T'', ''Tune''])] =
     Inl (ValueError ''Tune header must contain at least X:, T:, and K:'') \<and>
   validate_header [InformationField ''T'' (Tuple [''T'', ''Tune'']),
                    InformationField ''X'' (Tuple [''X'', ''1'']),
                    InformationField ''K'' (Tuple [''K'', ''C''])] =
     Inl (ValueError ''Tune header must begin with X: followed by T:'') \<and>
   validate_header [InformationField ''X'' (Tuple [''X'', ''1'']),
                    InformationField ''T'' (Tuple [''T'', ''Tune'']),
                    InformationField ''M'' (Tuple [''M'', ''4/4''])] =
     Inl (ValueError ''Tune header must end with K:'') \<and>
   validate_header [InformationField ''X'' (Tuple [''X'', ''1'']),
                    InformationField ''T'' (Tuple [''T'', ''Tune'']),
                    InformationField ''K'' (Tuple [''K'', ''C''])] = Inr () \<and>
   ParseAbcFile [''%abc'' @ [CHR 0x0A], ''X:1'' @ [CHR 0x0A], ''T:Tune'' @ [CHR 0x0A],
                 ''K:C'' @ [CHR 0x0A], ''C'' @ [CHR 0x0A]] =
     Inr (AbcFile [InformationField ''X'' (Tuple [''X'', ''1'']),
                   InformationField ''T'' (Tuple [''T'', ''Tune'']),
                   InformationField ''K'' (Tuple [''K'', ''C''])]
                  [Note ''C'' 1 None 40]) \<and>
   ParseAbcFile [''%abc'' @ [CHR 0x0A], ''T:Tune'' @ [CHR 0x0A], ''K:C'' @ [CHR 0x0A],
                 ''C'' @ [CHR 0x0A]] =
     Inl (ValueError ''Tune header must contain at least X:, T:, and K:'')"
proof -
  let ?x = "InformationField ''X'' (Tuple [''X'', ''1''])"
  let ?t = "InformationField ''T'' (Tuple [''T'', ''Tune''])"
  let ?k = "InformationField ''K'' (Tuple [''K'', ''C''])"
  let ?m = "InformationField ''M'' (Tuple [''M'', ''4/4''])"
  let ?file = "[''%abc'' @ [CHR 0x0A], ''T:Tune'' @ [CHR 0x0A], ''K:C'' @ [CHR 0x0A],
                 ''C'' @ [CHR 0x0A]]"
  let ?good = "[''%abc'' @ [CHR 0x0A], ''X:1'' @ [CHR 0x0A], ''T:Tune'' @ [CHR 0x0A],
                 ''K:C'' @ [CHR 0x0A], ''C'' @ [CHR 0x0A]]"
  let ?e = "ValueError ''Tune header must contain at least X:, T:, and K:''"
  have h: "read_header (drop 1 ?file) = ([?t, ?k], 2)"
    by (simp add: file_defs tokenizer_defs)
  have s: "strip (?file ! 0) = ''%abc''"
    by (simp add: file_defs)
  have v: "validate_header (fst (read_header (drop 1 ?file))) = Inl ?e"
    by (simp only: h) (simp add: validate_header_def)
  have ne: "?file \<noteq> []" by simp
  have p: "ParseAbcFile ?file = Inl ?e"
    by (rule header_validation [of "[?x, ?t]" ?file ?e, THEN conjunct2, THEN conjunct2,
          THEN conjunct2, THEN conjunct2, THEN conjunct2, THEN conjunct1, THEN mp,
          OF conjI [OF ne conjI [OF s v]]])
  have hg: "read_header (drop 1 ?good) = ([?x, ?t, ?k], 3)"
    by (simp add: file_defs tokenizer_defs)
  have sg: "strip (?good ! 0) = ''%abc''"
    by (simp add: file_defs)
  have vg: "validate_header (fst (read_header (drop 1 ?good))) = Inr ()"
    by (simp only: hg) (simp add: validate_header_def)
  have neg: "?good \<noteq> []" by simp
  have b: "music_content ?good (1 + snd (read_header (drop 1 ?good))) = ''C''"
    by (simp only: hg) (simp add: file_defs tokenizer_defs)
  have pm: "parse_music ''C'' = Inr [Note ''C'' 1 None 40]"
    by (simp add: loop_defs tokenizer_defs event_defs)
  have ai: "AbcFile_init [?x, ?t, ?k] [Note ''C'' 1 None 40] =
              Inr (AbcFile [?x, ?t, ?k] [Note ''C'' 1 None 40])"
    by (simp add: file_defs)
  have "ParseAbcFile ?good =
        (case parse_music (music_content ?good (1 + snd (read_header (drop 1 ?good)))) of
           Inl e' \<Rightarrow> Inl e'
         | Inr ms \<Rightarrow> AbcFile_init (fst (read_header (drop 1 ?good))) ms)"
    by (rule header_validation [of "[?x, ?t]" ?good ?e, THEN conjunct2, THEN conjunct2,
          THEN conjunct2, THEN conjunct2, THEN conjunct2, THEN conjunct2, THEN mp,
          OF conjI [OF neg conjI [OF sg vg]]])
  then have "ParseAbcFile ?good =
               AbcFile_init (fst (read_header (drop 1 ?good))) [Note ''C'' 1 None 40]"
    by (simp only: b pm sum.case)
  then have g: "ParseAbcFile ?good = Inr (AbcFile [?x, ?t, ?k] [Note ''C'' 1 None 40])"
    by (simp only: hg fst_conv ai)
  have a: "validate_header [?x, ?t] = Inl ?e"
    using header_validation [of "[?x, ?t]"] by simp
  have b: "validate_header [?t, ?x, ?k] =
             Inl (ValueError ''Tune header must begin with X: followed by T:'')"
    using header_validation [of "[?t, ?x, ?k]"] by simp
  have c: "validate_header [?x, ?t, ?m] = Inl (ValueError ''Tune header must end with K:'')"
    using header_validation [of "[?x, ?t, ?m]"] by simp
  have d: "validate_header [?x, ?t, ?k] = Inr ()"
    using header_validation [of "[?x, ?t, ?k]"] by simp
  show ?thesis
    by (intro conjI a b c d g p)
qed

text \<open>
  Claim C6 at the line \<^verbatim>\<open>k:C ^F\<close>: the field's name is the letter in upper case, its
  value is the tuple of both groups, \<^verbatim>\<open>('k', 'C ^F')\<close>, not the string after the colon.
\<close>

theorem field_value_is_tuple:
  "read_header [''k:C ^F'' @ [CHR 0x0A]] =
     ([InformationField ''K'' (Tuple [''k'', ''C ^F''])], 1) \<and>
   field_value (InformationField ''K'' (Tuple [''k'', ''C ^F''])) \<noteq> Str ''C ^F''"
  by (simp add: file_defs tokenizer_defs)


section \<open>Runs of accidental marks\<close>













section \<open>Key signatures\<close>

text \<open>
  Claim C1 at the key \<^verbatim>\<open>C ^F\<close> and the body \<^verbatim>\<open>F, F\<close>: the Note \<^verbatim>\<open>F\<close> becomes sharp
  with value 46, the Note \<^verbatim>\<open>F,\<close> keeps no accidental and the value 33, because the
  whole lower-cased name is compared with the letter.
\<close>

theorem key_signature_skips_octave_marks:
  "ParseAbcFile [''%abc'' @ [CHR 0x0A], ''X:1'' @ [CHR 0x0A], ''T:Tune'' @ [CHR 0x0A],
                 ''K:C ^F'' @ [CHR 0x0A], ''F, F'' @ [CHR 0x0A]] =
     Inr (AbcFile [InformationField ''X'' (Tuple [''X'', ''1'']),
                   InformationField ''T'' (Tuple [''T'', ''Tune'']),
                   InformationField ''K'' (Tuple [''K'', ''C ^F''])]
                  [Note ''F,'' 1 None 33,
                   Note ''F'' 1 (Some (Accidental ''^'' (Some 1))) 46])"
  by (simp add: file_defs loop_defs tokenizer_defs event_defs)

lemma key_signature_guard:
  assumes "[field_value f. f \<leftarrow> fs, field_name f = ''K''] = Tuple [k, raw] # vs"
    and "raw = [] \<or> hd raw \<noteq> CHR ''C''"
  shows "AbcFile_init fs ms =
           Inl (ValueError ''Key signature must be present and must be C with accidentals'')"
proof -
  from assms(2) have "length raw = 0 \<or> raw ! 0 \<noteq> CHR ''C''"
    by (cases raw) auto
  with assms(1) show ?thesis
    by (simp add: AbcFile_init_def propagate_key_signature_def)
qed

text \<open>
  Claim C5 at the key \<^verbatim>\<open>Cm\<close>: only the first character of the K value is compared with
  \<^verbatim>\<open>C\<close>, so the document is built and nothing is raised.
\<close>

theorem key_Cm_is_accepted:
  "ParseAbcFile [''%abc'' @ [CHR 0x0A], ''X:1'' @ [CHR 0x0A], ''T:Tune'' @ [CHR 0x0A],
                 ''K:Cm'' @ [CHR 0x0A], ''C'' @ [CHR 0x0A]] =
     Inr (AbcFile [InformationField ''X'' (Tuple [''X'', ''1'']),
                   InformationField ''T'' (Tuple [''T'', ''Tune'']),
                   InformationField ''K'' (Tuple [''K'', ''Cm''])]
                  [Note ''C'' 1 None 40])"
  by (simp add: file_defs loop_defs tokenizer_defs event_defs)

end
